theory Spec2Isabelle
  imports Complex_Main "HOL-Library.AList" "HOL-Library.Extended_Nat"
begin

section \<open>JavaScript numbers\<close>

text \<open>
  The engine of \<^verbatim>\<open>src/utils/predictorLogic.ts\<close> computes on JavaScript numbers. A number
  is modelled as a finite real, one of the two infinities, or NaN. The operations follow
  ECMAScript on the special values (NaN is contagious and compares false with everything,
  a finite value divided by zero is an infinity, \<open>0 / 0\<close> is NaN). On finite operands
  every operation is the exact real one: the rounding and the overflow of IEEE doubles
  and the sign of zero are outside this model.
\<close>

datatype jsnum = Num real | PosInf | NegInf | NaN

fun isFinite :: "jsnum \<Rightarrow> bool" where
  "isFinite (Num _) = True"
| "isFinite _ = False"

text \<open>The relational operators \<^verbatim>\<open><\<close>, \<^verbatim>\<open>></\<close>, \<^verbatim>\<open>>=\<close> and \<^verbatim>\<open>===\<close> on numbers.\<close>

fun jsLt :: "jsnum \<Rightarrow> jsnum \<Rightarrow> bool" where
  "jsLt NaN _ = False"
| "jsLt _ NaN = False"
| "jsLt (Num a) (Num b) = (a < b)"
| "jsLt (Num _) PosInf = True"
| "jsLt (Num _) NegInf = False"
| "jsLt PosInf _ = False"
| "jsLt NegInf NegInf = False"
| "jsLt NegInf _ = True"

definition jsGt :: "jsnum \<Rightarrow> jsnum \<Rightarrow> bool" where
  "jsGt a b = jsLt b a"

fun jsEq :: "jsnum \<Rightarrow> jsnum \<Rightarrow> bool" where
  "jsEq NaN _ = False"
| "jsEq _ NaN = False"
| "jsEq a b = (a = b)"

definition jsGe :: "jsnum \<Rightarrow> jsnum \<Rightarrow> bool" where
  "jsGe a b = (jsLt b a \<or> jsEq a b)"

text \<open>Unary minus and the four arithmetic operators.\<close>

fun jsNeg :: "jsnum \<Rightarrow> jsnum" where
  "jsNeg (Num a) = Num (- a)"
| "jsNeg PosInf = NegInf"
| "jsNeg NegInf = PosInf"
| "jsNeg NaN = NaN"

fun jsAdd :: "jsnum \<Rightarrow> jsnum \<Rightarrow> jsnum" where
  "jsAdd NaN _ = NaN"
| "jsAdd _ NaN = NaN"
| "jsAdd (Num a) (Num b) = Num (a + b)"
| "jsAdd (Num _) b = b"
| "jsAdd PosInf NegInf = NaN"
| "jsAdd NegInf PosInf = NaN"
| "jsAdd a _ = a"

definition jsSub :: "jsnum \<Rightarrow> jsnum \<Rightarrow> jsnum" where
  "jsSub a b = jsAdd a (jsNeg b)"

text \<open>The sign of a number: \<open>-1\<close>, \<open>0\<close> or \<open>1\<close>; NaN has none.\<close>

fun jsSign :: "jsnum \<Rightarrow> int option" where
  "jsSign NaN = None"
| "jsSign PosInf = Some 1"
| "jsSign NegInf = Some (- 1)"
| "jsSign (Num a) = Some (if a < 0 then - 1 else if a = 0 then 0 else 1)"

definition signedInf :: "int \<Rightarrow> jsnum" where
  "signedInf s = (if s = 0 then NaN else if 0 < s then PosInf else NegInf)"

fun jsMul :: "jsnum \<Rightarrow> jsnum \<Rightarrow> jsnum" where
  "jsMul (Num a) (Num b) = Num (a * b)"
| "jsMul a b =
     (case (jsSign a, jsSign b) of
        (Some s, Some t) \<Rightarrow> signedInf (s * t)
      | _ \<Rightarrow> NaN)"

fun jsDiv :: "jsnum \<Rightarrow> jsnum \<Rightarrow> jsnum" where
  "jsDiv NaN _ = NaN"
| "jsDiv _ NaN = NaN"
| "jsDiv (Num a) (Num b) =
     (if b = 0 then (if a = 0 then NaN else if 0 < a then PosInf else NegInf)
      else Num (a / b))"
| "jsDiv (Num _) _ = Num 0"
| "jsDiv a (Num b) =
     (case jsSign a of
        Some s \<Rightarrow> signedInf (if b < 0 then - s else s)
      | None \<Rightarrow> NaN)"
| "jsDiv _ _ = NaN"

text \<open>\<^verbatim>\<open>Math.abs\<close>, \<^verbatim>\<open>Math.sqrt\<close>, \<^verbatim>\<open>Math.exp\<close>, and \<^verbatim>\<open>Math.min\<close> and \<^verbatim>\<open>Math.max\<close>
  on their argument lists (no argument gives the neutral infinity, a NaN argument gives NaN).\<close>

fun Math_abs :: "jsnum \<Rightarrow> jsnum" where
  "Math_abs (Num a) = Num \<bar>a\<bar>"
| "Math_abs NaN = NaN"
| "Math_abs _ = PosInf"

fun Math_sqrt :: "jsnum \<Rightarrow> jsnum" where
  "Math_sqrt (Num a) = (if a < 0 then NaN else Num (sqrt a))"
| "Math_sqrt PosInf = PosInf"
| "Math_sqrt _ = NaN"

fun Math_exp :: "jsnum \<Rightarrow> jsnum" where
  "Math_exp (Num a) = Num (exp a)"
| "Math_exp PosInf = PosInf"
| "Math_exp NegInf = Num 0"
| "Math_exp NaN = NaN"

fun min2 :: "jsnum \<Rightarrow> jsnum \<Rightarrow> jsnum" where
  "min2 NaN _ = NaN"
| "min2 _ NaN = NaN"
| "min2 a b = (if jsLt b a then b else a)"

fun max2 :: "jsnum \<Rightarrow> jsnum \<Rightarrow> jsnum" where
  "max2 NaN _ = NaN"
| "max2 _ NaN = NaN"
| "max2 a b = (if jsLt a b then b else a)"

definition Math_min :: "jsnum list \<Rightarrow> jsnum" where
  "Math_min xs = foldl min2 PosInf xs"

definition Math_max :: "jsnum list \<Rightarrow> jsnum" where
  "Math_max xs = foldl max2 NegInf xs"

text \<open>\<^verbatim>\<open>a || b\<close> on numbers: the left operand unless it is falsy (zero or NaN).\<close>

definition jsOr :: "jsnum \<Rightarrow> jsnum \<Rightarrow> jsnum" where
  "jsOr a b = (if a = NaN \<or> a = Num 0 then b else a)"

section \<open>Strings, arrays and maps\<close>

text \<open>
  A string is a list of 8-bit code units. \<^verbatim>\<open>trim\<close> strips the white space of the
  ASCII range from both ends and \<^verbatim>\<open>toLowerCase\<close> maps \<open>A\<close>..\<open>Z\<close> to \<open>a\<close>..\<open>z\<close>;
  code units above 127 are left alone by both.
\<close>

definition isWhiteSpace :: "char \<Rightarrow> bool" where
  "isWhiteSpace c = (c \<in> set [CHR 0x09, CHR 0x0A, CHR 0x0B, CHR 0x0C, CHR 0x0D, CHR 0x20])"

definition trim :: "string \<Rightarrow> string" where
  "trim s = rev (dropWhile isWhiteSpace (rev (dropWhile isWhiteSpace s)))"

definition toLowerChar :: "char \<Rightarrow> char" where
  "toLowerChar c =
     (if 65 \<le> (of_char c :: nat) \<and> (of_char c :: nat) \<le> 90
      then char_of ((of_char c :: nat) + 32) else c)"

definition toLowerCase :: "string \<Rightarrow> string" where
  "toLowerCase s = map toLowerChar s"

text \<open>\<^verbatim>\<open>parts.join(sep)\<close>.\<close>

fun join :: "string \<Rightarrow> string list \<Rightarrow> string" where
  "join sep [] = []"
| "join sep [x] = x"
| "join sep (x # y # ys) = x @ sep @ join sep (y # ys)"

text \<open>
  \<^verbatim>\<open>round.match(/\d+/)\<close>: the first maximal run of decimal digits, if the string has a
  digit at all, and \<^verbatim>\<open>Number\<close> of such a run, its decimal value.
\<close>

definition isDigit :: "char \<Rightarrow> bool" where
  "isDigit c = (48 \<le> (of_char c :: nat) \<and> (of_char c :: nat) \<le> 57)"

definition matchDigits :: "string \<Rightarrow> string option" where
  "matchDigits s =
     (case dropWhile (\<lambda>c. \<not> isDigit c) s of
        [] \<Rightarrow> None
      | ds \<Rightarrow> Some (takeWhile isDigit ds))"

definition digitsValue :: "string \<Rightarrow> nat" where
  "digitsValue ds = foldl (\<lambda>n c. 10 * n + ((of_char c :: nat) - 48)) 0 ds"

definition MAX_SAFE_INTEGER :: real where
  "MAX_SAFE_INTEGER = 9007199254740991"

text \<open>
  \<^verbatim>\<open>Array.prototype.sort\<close> with a comparator is a stable sort; an element stays before
  another unless the comparator, called on the two in that order, returns a number
  greater than zero (a NaN result counts as zero). It is modelled by the stable insertion
  sort. Both comparators of this program are differences of finite keys, for which every
  stable sort returns the same array.
\<close>

fun insertBy :: "('a \<Rightarrow> 'a \<Rightarrow> jsnum) \<Rightarrow> 'a \<Rightarrow> 'a list \<Rightarrow> 'a list" where
  "insertBy cmp x [] = [x]"
| "insertBy cmp x (y # ys) =
     (if jsGt (cmp x y) (Num 0) then y # insertBy cmp x ys else x # y # ys)"

definition Array_sort :: "('a \<Rightarrow> 'a \<Rightarrow> jsnum) \<Rightarrow> 'a list \<Rightarrow> 'a list" where
  "Array_sort cmp xs = foldr (insertBy cmp) xs []"

text \<open>
  A \<^verbatim>\<open>Map\<close> keeps its keys in the order of their first insertion: it is an association
  list, \<^verbatim>\<open>get\<close> is \<^const>\<open>map_of\<close>, \<^verbatim>\<open>set\<close> is \<^const>\<open>AList.update\<close> (in place for a
  key that is present, at the end for a new one) and \<^verbatim>\<open>values()\<close> is \<open>map snd\<close>.
\<close>

section \<open>The data model\<close>

text \<open>
  The types of the source, field by field. Four fields have a name that is taken in
  Isabelle: \<^verbatim>\<open>round\<close> is \<open>round_label\<close>, and \<^verbatim>\<open>method\<close>, \<^verbatim>\<open>min\<close> and \<^verbatim>\<open>max\<close> of the
  probability details are \<open>method_d\<close>, \<open>min_d\<close> and \<open>max_d\<close>. A field that two
  records share is written with the name of its record where the two could be confused.
\<close>

datatype probMethod = Normal_cdf | Min_max_linear | Fallback

datatype chance = Low | Medium | High

record ProbabilityDetails =
  method_d :: probMethod
  inputMarks :: jsnum
  mean :: jsnum
  std :: jsnum
  min_d :: jsnum
  max_d :: jsnum
  zScore :: "jsnum option"
  rawScore :: jsnum

record PredictorFilters =
  course :: string
  community :: string
  category :: string
  quota :: string
  collegeType :: string

record CollegeSummary =
  college :: string
  course :: string
  quota :: string
  category :: string
  community :: string
  college_type :: string
  round_label :: string
  year :: jsnum
  rank_mean :: jsnum
  rank_std :: jsnum
  rank_min :: jsnum
  rank_max :: jsnum
  marks_mean :: jsnum
  marks_std :: jsnum
  marks_min :: jsnum
  marks_max :: jsnum

record ConsolidatedCollege = CollegeSummary +
  roundSummaries :: "CollegeSummary list"

record PredictedCollege = CollegeSummary +
  probability :: jsnum
  chance :: chance
  allotmentRound :: string
  probabilityDetails :: ProbabilityDetails

text \<open>The points of \<^verbatim>\<open>aggregateMeanStd\<close>, and its result.\<close>

record MeanStd =
  mean :: jsnum
  std :: jsnum

section \<open>The engine\<close>

definition aggregateMeanStd :: "MeanStd list \<Rightarrow> MeanStd" where
  "aggregateMeanStd points =
     (if length points = 0 then \<lparr>mean = Num 0, std = Num 0\<rparr>
      else
        let valid = filter (\<lambda>p. isFinite (mean p) \<and> isFinite (std p) \<and> jsGe (std p) (Num 0)) points
        in if length valid = 0 then \<lparr>mean = Num 0, std = Num 0\<rparr>
           else
             let meanV = jsDiv (foldl (\<lambda>sum p. jsAdd sum (mean p)) (Num 0) valid)
                           (Num (real (length valid)));
                 secondMoment =
                   jsDiv (foldl (\<lambda>sum p. jsAdd sum
                                   (jsAdd (jsMul (std p) (std p)) (jsMul (mean p) (mean p))))
                            (Num 0) valid)
                     (Num (real (length valid)));
                 variance = Math_max [Num 0, jsSub secondMoment (jsMul meanV meanV)]
             in \<lparr>mean = meanV, std = Math_sqrt variance\<rparr>)"

text \<open>
  The grouping key of \<^verbatim>\<open>consolidateAcrossRounds\<close>. \<^verbatim>\<open>String(item.year)\<close> is the
  number-to-string conversion of the language; it is the parameter \<open>str\<close> of the model,
  so that what is proved holds whatever string a number is printed as.
\<close>

definition groupKey :: "(jsnum \<Rightarrow> string) \<Rightarrow> CollegeSummary \<Rightarrow> string" where
  "groupKey str item =
     join ''|''
       (map (\<lambda>v. toLowerCase (trim v))
          [college item, course item, quota item, category item, community item,
           college_type item, str (year item)])"

text \<open>One turn of the loop over \<^verbatim>\<open>data\<close> that fills the map \<^verbatim>\<open>grouped\<close>.\<close>

definition groupStep ::
  "(jsnum \<Rightarrow> string) \<Rightarrow> (string \<times> CollegeSummary list) list \<Rightarrow> CollegeSummary
     \<Rightarrow> (string \<times> CollegeSummary list) list" where
  "groupStep str grouped item =
     (let key = groupKey str item
      in case map_of grouped key of
           Some list \<Rightarrow> AList.update key (list @ [item]) grouped
         | None \<Rightarrow> AList.update key [item] grouped)"

text \<open>
  The function mapped over the groups. A group is never empty; on an empty array
  \<^verbatim>\<open>items[0]\<close> would be \<^verbatim>\<open>undefined\<close> and no summary is built, which is \<open>None\<close> here.
\<close>

fun consolidateGroup :: "CollegeSummary list \<Rightarrow> ConsolidatedCollege option" where
  "consolidateGroup [] = None"
| "consolidateGroup (base # rest) =
     (let items = base # rest;
          rankAgg = aggregateMeanStd
            (map (\<lambda>item. \<lparr>mean = rank_mean item, std = rank_std item\<rparr>) items);
          marksAgg = aggregateMeanStd
            (map (\<lambda>item. \<lparr>mean = marks_mean item, std = marks_std item\<rparr>) items)
      in Some \<lparr>college = college base, course = course base, quota = quota base,
               category = category base, community = community base,
               college_type = college_type base,
               round_label = ''All Rounds'',
               year = year base,
               rank_mean = mean rankAgg,
               rank_std = std rankAgg,
               rank_min = Math_min (map rank_min items),
               rank_max = Math_max (map rank_max items),
               marks_mean = mean marksAgg,
               marks_std = std marksAgg,
               marks_min = Math_min (map marks_min items),
               marks_max = Math_max (map marks_max items),
               roundSummaries = items\<rparr>)"

definition consolidateAcrossRounds ::
  "(jsnum \<Rightarrow> string) \<Rightarrow> CollegeSummary list \<Rightarrow> ConsolidatedCollege list" where
  "consolidateAcrossRounds str data =
     (let grouped = foldl (groupStep str) [] data
      in List.map_filter consolidateGroup (map snd grouped))"

definition roundOrder :: "string \<Rightarrow> jsnum" where
  "roundOrder r =
     (case matchDigits r of
        None \<Rightarrow> Num MAX_SAFE_INTEGER
      | Some ds \<Rightarrow> Num (real (digitsValue ds)))"

definition matchOptionalFilter :: "string option \<Rightarrow> string \<Rightarrow> bool" where
  "matchOptionalFilter v selected =
     (let picked = toLowerCase (trim selected)
      in if picked = [] then True
         else if v = None \<or> v = Some [] then True
         else toLowerCase (trim (the v)) = picked)"

definition clamp :: "jsnum \<Rightarrow> jsnum \<Rightarrow> jsnum \<Rightarrow> jsnum" where
  "clamp v lo hi = Math_min [hi, Math_max [lo, v]]"

definition normalCdf :: "jsnum \<Rightarrow> jsnum" where
  "normalCdf z =
     (let sign = (if jsLt z (Num 0) then Num (- 1) else Num 1);
          x = jsDiv (Math_abs z) (Math_sqrt (Num 2));
          t = jsDiv (Num 1) (jsAdd (Num 1) (jsMul (Num 0.3275911) x));
          a1 = Num 0.254829592;
          a2 = Num (- 0.284496736);
          a3 = Num 1.421413741;
          a4 = Num (- 1.453152027);
          a5 = Num 1.061405429;
          erf = jsSub (Num 1)
                  (jsMul
                     (jsMul
                        (jsAdd (jsMul (jsAdd (jsMul (jsAdd (jsMul (jsAdd (jsMul a5 t) a4) t) a3) t) a2) t) a1)
                        t)
                     (Math_exp (jsMul (jsNeg x) x)))
      in jsMul (Num 0.5) (jsAdd (Num 1) (jsMul sign erf)))"

definition probabilityFromStats ::
  "jsnum \<Rightarrow> 'a CollegeSummary_scheme \<Rightarrow> ProbabilityDetails" where
  "probabilityFromStats marks c =
     (let meanV = marks_mean c; stdV = marks_std c; minV = marks_min c; maxV = marks_max c
      in if \<not> isFinite marks \<or> \<not> isFinite meanV then
           \<lparr>method_d = Fallback, inputMarks = marks, ProbabilityDetails.mean = meanV,
            ProbabilityDetails.std = stdV, min_d = minV, max_d = maxV,
            zScore = None, rawScore = Num 0\<rparr>
         else if isFinite minV \<and> jsLt marks minV then
           \<lparr>method_d = Fallback, inputMarks = marks, ProbabilityDetails.mean = meanV,
            ProbabilityDetails.std = stdV, min_d = minV, max_d = maxV,
            zScore = None, rawScore = Num 0\<rparr>
         else if isFinite stdV \<and> jsGt stdV (Num 0) then
           (let z = jsDiv (jsSub marks meanV) stdV
            in \<lparr>method_d = Normal_cdf, inputMarks = marks, ProbabilityDetails.mean = meanV,
                ProbabilityDetails.std = stdV, min_d = minV, max_d = maxV,
                zScore = Some z, rawScore = clamp (normalCdf z) (Num 0) (Num 1)\<rparr>)
         else if isFinite minV \<and> isFinite maxV \<and> jsGt maxV minV then
           \<lparr>method_d = Min_max_linear, inputMarks = marks, ProbabilityDetails.mean = meanV,
            ProbabilityDetails.std = stdV, min_d = minV, max_d = maxV,
            zScore = None,
            rawScore = clamp (jsDiv (jsSub marks minV) (jsSub maxV minV)) (Num 0) (Num 1)\<rparr>
         else
           \<lparr>method_d = Fallback, inputMarks = marks, ProbabilityDetails.mean = meanV,
            ProbabilityDetails.std = stdV, min_d = minV, max_d = maxV,
            zScore = None,
            rawScore = (if jsGe marks meanV then Num 0.85 else Num 0.15)\<rparr>)"

text \<open>
  \<^verbatim>\<open>estimateAllotmentRound\<close>; an element of \<^verbatim>\<open>rankedRounds\<close>, the object
  \<^verbatim>\<open>{round, probability}\<close>, is the pair of the two.
\<close>

definition estimateAllotmentRound :: "CollegeSummary list \<Rightarrow> jsnum \<Rightarrow> string" where
  "estimateAllotmentRound rounds marks =
     (let rankedRounds =
            Array_sort (\<lambda>a b. jsSub (roundOrder (fst a)) (roundOrder (fst b)))
              (map (\<lambda>item. (round_label item, rawScore (probabilityFromStats marks item))) rounds)
      in case find (\<lambda>item. jsGe (snd item) (Num 0.5)) rankedRounds of
           Some strongRound \<Rightarrow> fst strongRound
         | None \<Rightarrow>
             (case find (\<lambda>item. jsGt (snd item) (Num 0)) rankedRounds of
                Some possibleRound \<Rightarrow> fst possibleRound
              | None \<Rightarrow> ''Not likely''))"

definition chanceFromProbability :: "jsnum \<Rightarrow> chance" where
  "chanceFromProbability p =
     (if jsGe p (Num 0.75) then High else if jsGe p (Num 0.45) then Medium else Low)"

text \<open>The three arrow functions and the loop body of \<^verbatim>\<open>predictColleges\<close>, in its order.\<close>

definition passesFilters :: "PredictorFilters \<Rightarrow> ConsolidatedCollege \<Rightarrow> bool" where
  "passesFilters filters c =
     (matchOptionalFilter (Some (course c)) (PredictorFilters.course filters) \<and>
      matchOptionalFilter (Some (community c)) (PredictorFilters.community filters) \<and>
      matchOptionalFilter (Some (category c)) (PredictorFilters.category filters) \<and>
      matchOptionalFilter (Some (quota c)) (PredictorFilters.quota filters) \<and>
      matchOptionalFilter (Some (college_type c)) (collegeType filters))"

definition predictOne :: "jsnum \<Rightarrow> ConsolidatedCollege \<Rightarrow> PredictedCollege" where
  "predictOne marks c =
     (let details = probabilityFromStats marks c;
          p = rawScore details;
          ch = chanceFromProbability p;
          ar = estimateAllotmentRound (roundSummaries c) marks
      in \<lparr>college = college c, course = course c, quota = quota c,
          category = category c, community = community c,
          college_type = college_type c, round_label = round_label c, year = year c,
          rank_mean = rank_mean c, rank_std = rank_std c,
          rank_min = rank_min c, rank_max = rank_max c,
          marks_mean = marks_mean c, marks_std = marks_std c,
          marks_min = marks_min c, marks_max = marks_max c,
          probability = p, chance = ch, allotmentRound = ar,
          probabilityDetails = details\<rparr>)"

definition isBetter :: "PredictedCollege \<Rightarrow> PredictedCollege \<Rightarrow> bool" where
  "isBetter item current =
     (jsGt (probability item) (probability current) \<or>
      (jsEq (probability item) (probability current) \<and>
       jsGt (marks_mean item) (marks_mean current)) \<or>
      (jsEq (probability item) (probability current) \<and>
       jsEq (marks_mean item) (marks_mean current) \<and>
       jsGt (year item) (year current)))"

definition bestStep ::
  "(string \<times> PredictedCollege) list \<Rightarrow> PredictedCollege \<Rightarrow> (string \<times> PredictedCollege) list" where
  "bestStep bestByCollege item =
     (let key = toLowerCase (trim (college item))
      in case map_of bestByCollege key of
           None \<Rightarrow> AList.update key item bestByCollege
         | Some current \<Rightarrow>
             if isBetter item current then AList.update key item bestByCollege
             else bestByCollege)"

definition compareColleges :: "PredictedCollege \<Rightarrow> PredictedCollege \<Rightarrow> jsnum" where
  "compareColleges a b =
     jsOr (jsSub (probability b) (probability a)) (jsSub (marks_mean b) (marks_mean a))"

definition predictColleges ::
  "(jsnum \<Rightarrow> string) \<Rightarrow> jsnum \<Rightarrow> PredictorFilters \<Rightarrow> CollegeSummary list
     \<Rightarrow> PredictedCollege list" where
  "predictColleges str marks filters data =
     (let consolidated = consolidateAcrossRounds str data;
          ranked = filter (\<lambda>c. jsGe (probability c) (Num 0.1))
                     (map (predictOne marks) (filter (passesFilters filters) consolidated));
          bestByCollege = foldl bestStep [] ranked
      in Array_sort compareColleges (map snd bestByCollege))"

section \<open>Definitions used to state the properties\<close>

text \<open>
  The closed form that \<^const>\<open>normalCdf\<close> evaluates (the approximation of the error
  function by Abramowitz and Stegun, formula 7.1.26), as a function on the reals, and
  the clamp to the unit interval.
\<close>

definition normalCdfR :: "real \<Rightarrow> real" where
  "normalCdfR z =
     (let sign = (if z < 0 then - 1 else 1);
          x = \<bar>z\<bar> / sqrt 2;
          t = 1 / (1 + 0.3275911 * x);
          erf = 1 - (((((1.061405429 * t + (- 1.453152027)) * t + 1.421413741) * t
                        + (- 0.284496736)) * t + 0.254829592) * t * exp (- x * x))
      in 0.5 * (1 + sign * erf))"

definition clampR :: "real \<Rightarrow> real" where
  "clampR v = min 1 (max 0 v)"

text \<open>
  The real value of a finite number, and the invalid observations of the aggregator:
  a mean or a standard deviation that is not finite, or a negative standard deviation.
\<close>

fun finiteValue :: "jsnum \<Rightarrow> real" where
  "finiteValue (Num r) = r"
| "finiteValue _ = 0"

definition invalidPoint :: "MeanStd \<Rightarrow> bool" where
  "invalidPoint p = (\<not> isFinite (mean p) \<or> \<not> isFinite (std p) \<or> jsLt (std p) (Num 0))"

text \<open>
  The estimate of the allotment round as the specification words it: the number of a round
  is the first integer in its label, a round without a number comes after every numbered
  round, and the answer is the first round in that order with a raw score of at least
  0.5, else the first with a positive raw score, else \<open>Not likely\<close>.
\<close>

definition roundNumber :: "string \<Rightarrow> nat option" where
  "roundNumber r = map_option digitsValue (matchDigits r)"

definition specOrdinal :: "string \<Rightarrow> enat" where
  "specOrdinal r = (case roundNumber r of None \<Rightarrow> \<infinity> | Some n \<Rightarrow> enat n)"

definition specEstimateRound :: "CollegeSummary list \<Rightarrow> jsnum \<Rightarrow> string" where
  "specEstimateRound rounds marks =
     (let ordered = sort_key (\<lambda>item. specOrdinal (round_label item)) rounds
      in case find (\<lambda>item. jsGe (rawScore (probabilityFromStats marks item)) (Num 0.5)) ordered of
           Some item \<Rightarrow> round_label item
         | None \<Rightarrow>
             (case find (\<lambda>item. jsGt (rawScore (probabilityFromStats marks item)) (Num 0)) ordered of
                Some item \<Rightarrow> round_label item
              | None \<Rightarrow> ''Not likely''))"

text \<open>
  The least and the greatest of a list of numbers: a member that every member is at least,
  or at most.
\<close>

definition isLeast :: "jsnum \<Rightarrow> jsnum list \<Rightarrow> bool" where
  "isLeast m xs = (m \<in> set xs \<and> (\<forall>x\<in>set xs. jsGe x m))"

definition isGreatest :: "jsnum \<Rightarrow> jsnum list \<Rightarrow> bool" where
  "isGreatest m xs = (m \<in> set xs \<and> (\<forall>x\<in>set xs. jsGe m x))"

text \<open>
  The institution of a record, as the deduplication reads it (the key of the map
  \<^verbatim>\<open>bestByCollege\<close>), and the order of the final sort: descending probability, ties by
  descending marks mean.
\<close>

definition institution :: "PredictedCollege \<Rightarrow> string" where
  "institution p = toLowerCase (trim (college p))"

definition rankedBefore :: "PredictedCollege \<Rightarrow> PredictedCollege \<Rightarrow> bool" where
  "rankedBefore a b =
     (jsGt (probability a) (probability b) \<or>
      (jsEq (probability a) (probability b) \<and> jsGe (marks_mean a) (marks_mean b)))"

section \<open>Definitions used in the proofs\<close>

text \<open>The mean and the variance that \<^const>\<open>aggregateMeanStd\<close> computes on valid points.\<close>

definition meanR :: "MeanStd list \<Rightarrow> real" where
  "meanR ps = (\<Sum>p\<leftarrow>ps. finiteValue (mean p)) / real (length ps)"

definition varianceR :: "MeanStd list \<Rightarrow> real" where
  "varianceR ps =
     (\<Sum>p\<leftarrow>ps. finiteValue (std p) * finiteValue (std p) + finiteValue (mean p) * finiteValue (mean p))
       / real (length ps) - meanR ps * meanR ps"

text \<open>
  The invariant of the loop over \<^verbatim>\<open>ranked\<close>: the map holds, under the institution of a
  record seen so far, a record that this one is not better than.
\<close>

definition covered :: "(string \<times> PredictedCollege) list \<Rightarrow> PredictedCollege \<Rightarrow> bool" where
  "covered acc y = (case map_of acc (institution y) of
                      None \<Rightarrow> False
                    | Some v \<Rightarrow> \<not> isBetter y v)"

text \<open>
  On records with a finite probability and a finite marks mean the comparator of the final
  sort is the order \<^const>\<open>rankedBefore\<close>, which is total and transitive there.
\<close>

definition finiteKeys :: "PredictedCollege \<Rightarrow> bool" where
  "finiteKeys p = (isFinite (probability p) \<and> isFinite (marks_mean p))"

text \<open>
  The polynomial of the closed form, its derivative, and the tail \<open>1 - erf\<close> that the
  closed form approximates.
\<close>

definition erfPoly :: "real \<Rightarrow> real" where
  "erfPoly t = ((((1.061405429 * t + (- 1.453152027)) * t + 1.421413741) * t
                  + (- 0.284496736)) * t + 0.254829592) * t"

definition erfPoly' :: "real \<Rightarrow> real" where
  "erfPoly' t = 0.254829592 + 2 * (- 0.284496736) * t + 3 * 1.421413741 * (t * t)
                + 4 * (- 1.453152027) * (t * t * t) + 5 * 1.061405429 * (t * t * t * t)"

definition erfTail :: "real \<Rightarrow> real" where
  "erfTail x = erfPoly (1 / (1 + 0.3275911 * x)) * exp (- x * x)"

section \<open>Example data\<close>

text \<open>
  The inputs on which the witnesses and the counterexamples are evaluated: two rounds of
  one college (its name written in two ways), one round of another college, the two
  consolidated summaries of that data, and variants of these records. \<open>exampleString\<close>
  stands for the number-to-string conversion on the one year of the data.
\<close>

definition exampleRound1 :: CollegeSummary where
  "exampleRound1 =
     \<lparr>college = ''Madras Medical College'', course = ''MBBS'', quota = ''State'',
      category = ''OC'', community = ''OC'', college_type = ''Government'',
      round_label = ''Round 1'', year = Num 2025,
      rank_mean = Num 100, rank_std = Num 0, rank_min = Num 90, rank_max = Num 110,
      marks_mean = Num 500, marks_std = Num 0, marks_min = Num 450, marks_max = Num 550\<rparr>"

definition exampleRound2 :: CollegeSummary where
  "exampleRound2 =
     \<lparr>college = '' madras medical college'', course = ''MBBS'', quota = ''State'',
      category = ''OC'', community = ''OC'', college_type = ''Government'',
      round_label = ''Round 2'', year = Num 2025,
      rank_mean = Num 100, rank_std = Num 0, rank_min = Num 80, rank_max = Num 260,
      marks_mean = Num 500, marks_std = Num 0, marks_min = Num 440, marks_max = Num 520\<rparr>"

definition exampleOther :: CollegeSummary where
  "exampleOther =
     \<lparr>college = ''Stanley Medical College'', course = ''MBBS'', quota = ''State'',
      category = ''OC'', community = ''OC'', college_type = ''Government'',
      round_label = ''Round 1'', year = Num 2025,
      rank_mean = Num 300, rank_std = Num 0, rank_min = Num 300, rank_max = Num 300,
      marks_mean = Num 500, marks_std = Num 0, marks_min = Num 500, marks_max = Num 500\<rparr>"

definition exampleData :: "CollegeSummary list" where
  "exampleData = [exampleRound1, exampleRound2, exampleOther]"

definition exampleFilters :: PredictorFilters where
  "exampleFilters =
     \<lparr>PredictorFilters.course = ''mbbs'', community = [], category = '' '',
      quota = ''State'', collegeType = []\<rparr>"

definition exampleString :: "jsnum \<Rightarrow> string" where
  "exampleString n = (if n = Num 2025 then ''2025'' else ''NaN'')"

definition exampleMadras :: ConsolidatedCollege where
  "exampleMadras =
     \<lparr>college = ''Madras Medical College'', course = ''MBBS'', quota = ''State'',
      category = ''OC'', community = ''OC'', college_type = ''Government'',
      round_label = ''All Rounds'', year = Num 2025,
      rank_mean = Num 100, rank_std = Num 0, rank_min = Num 80, rank_max = Num 260,
      marks_mean = Num 500, marks_std = Num 0, marks_min = Num 440, marks_max = Num 550,
      roundSummaries = [exampleRound1, exampleRound2]\<rparr>"

definition exampleStanley :: ConsolidatedCollege where
  "exampleStanley =
     \<lparr>college = ''Stanley Medical College'', course = ''MBBS'', quota = ''State'',
      category = ''OC'', community = ''OC'', college_type = ''Government'',
      round_label = ''All Rounds'', year = Num 2025,
      rank_mean = Num 300, rank_std = Num 0, rank_min = Num 300, rank_max = Num 300,
      marks_mean = Num 500, marks_std = Num 0, marks_min = Num 500, marks_max = Num 500,
      roundSummaries = [exampleOther]\<rparr>"

definition exampleFinal :: CollegeSummary where
  "exampleFinal = exampleOther\<lparr>round_label := ''Final''\<rparr>"

definition exampleHuge :: CollegeSummary where
  "exampleHuge = exampleOther\<lparr>round_label := ''Round 9007199254740992''\<rparr>"

definition exampleSpread :: CollegeSummary where
  "exampleSpread = exampleRound1\<lparr>marks_std := Num 20\<rparr>"

definition invalidPoints :: "MeanStd list" where
  "invalidPoints = [\<lparr>mean = NaN, std = Num 1\<rparr>, \<lparr>mean = Num 3, std = Num (- 1)\<rparr>,
                    \<lparr>mean = Num 3, std = PosInf\<rparr>]"

definition validPoints :: "MeanStd list" where
  "validPoints = [\<lparr>mean = Num 500, std = Num 0\<rparr>, \<lparr>mean = Num 480, std = Num 0\<rparr>]"

section \<open>Numbers\<close>

lemma isFinite_iff: "isFinite x \<longleftrightarrow> (\<exists>r. x = Num r)"
  by (cases x) auto

lemma jsSub_Num [simp]: "jsSub (Num a) (Num b) = Num (a - b)"
  by (simp add: jsSub_def)

lemma normalCdf_Num: "normalCdf (Num z) = Num (normalCdfR z)"
proof -
  define x where "x = \<bar>z\<bar> / sqrt 2"
  define t where "t = 1 / (1 + 0.3275911 * x)"
  have x0: "0 \<le> x" by (simp add: x_def)
  have "0 < 1 + 0.3275911 * x"
    using x0 by (intro add_pos_nonneg) auto
  then have d0: "1 + 0.3275911 * x \<noteq> 0" by simp
  have xs: "jsDiv (Math_abs (Num z)) (Math_sqrt (Num 2)) = Num x"
    by (simp add: x_def)
  have ts: "jsDiv (Num 1) (jsAdd (Num 1) (jsMul (Num 0.3275911) (Num x))) = Num t"
    using d0 by (simp add: t_def)
  have sg: "(if jsLt (Num z) (Num 0) then Num (- 1) else Num 1) = Num (if z < 0 then - 1 else 1)"
    by simp
  show ?thesis
    unfolding normalCdf_def normalCdfR_def Let_def xs ts sg x_def [symmetric] t_def [symmetric]
    by (simp only: jsMul.simps jsAdd.simps jsSub_Num jsNeg.simps Math_exp.simps)
qed

lemma clamp_Num: "clamp (Num v) (Num 0) (Num 1) = Num (clampR v)"
  by (simp add: clamp_def clampR_def Math_min_def Math_max_def min_def max_def)

section \<open>The probability model\<close>

text \<open>The five branches of \<^const>\<open>probabilityFromStats\<close>, one lemma each.\<close>

lemma pfs_not_finite:
  "\<not> isFinite score \<or> \<not> isFinite (marks_mean c) \<Longrightarrow>
   probabilityFromStats score c =
     \<lparr>method_d = Fallback, inputMarks = score, ProbabilityDetails.mean = marks_mean c,
      ProbabilityDetails.std = marks_std c, min_d = marks_min c, max_d = marks_max c,
      zScore = None, rawScore = Num 0\<rparr>"
  by (auto simp: probabilityFromStats_def Let_def)

lemma pfs_below:
  "marks_mean c = Num mu \<Longrightarrow> marks_min c = Num lo \<Longrightarrow> s < lo \<Longrightarrow>
   probabilityFromStats (Num s) c =
     \<lparr>method_d = Fallback, inputMarks = Num s, ProbabilityDetails.mean = marks_mean c,
      ProbabilityDetails.std = marks_std c, min_d = marks_min c, max_d = marks_max c,
      zScore = None, rawScore = Num 0\<rparr>"
  by (auto simp: probabilityFromStats_def Let_def)

lemma pfs_normal:
  "marks_mean c = Num mu \<Longrightarrow> \<not> (\<exists>lo. marks_min c = Num lo \<and> s < lo) \<Longrightarrow>
   marks_std c = Num sd \<Longrightarrow> 0 < sd \<Longrightarrow>
   probabilityFromStats (Num s) c =
     \<lparr>method_d = Normal_cdf, inputMarks = Num s, ProbabilityDetails.mean = marks_mean c,
      ProbabilityDetails.std = marks_std c, min_d = marks_min c, max_d = marks_max c,
      zScore = Some (Num ((s - mu) / sd)),
      rawScore = Num (clampR (normalCdfR ((s - mu) / sd)))\<rparr>"
  by (cases "marks_min c")
     (auto simp: probabilityFromStats_def Let_def jsGt_def normalCdf_Num clamp_Num)

lemma pfs_linear:
  "marks_mean c = Num mu \<Longrightarrow> \<not> (\<exists>lo. marks_min c = Num lo \<and> s < lo) \<Longrightarrow>
   \<not> (\<exists>sd. marks_std c = Num sd \<and> 0 < sd) \<Longrightarrow>
   marks_min c = Num lo \<Longrightarrow> marks_max c = Num hi \<Longrightarrow> lo < hi \<Longrightarrow>
   probabilityFromStats (Num s) c =
     \<lparr>method_d = Min_max_linear, inputMarks = Num s, ProbabilityDetails.mean = marks_mean c,
      ProbabilityDetails.std = marks_std c, min_d = marks_min c, max_d = marks_max c,
      zScore = None, rawScore = Num (clampR ((s - lo) / (hi - lo)))\<rparr>"
  by (cases "marks_std c")
     (auto simp: probabilityFromStats_def Let_def jsGt_def clamp_Num)

lemma pfs_degenerate:
  "marks_mean c = Num mu \<Longrightarrow> \<not> (\<exists>lo. marks_min c = Num lo \<and> s < lo) \<Longrightarrow>
   \<not> (\<exists>sd. marks_std c = Num sd \<and> 0 < sd) \<Longrightarrow>
   \<not> (\<exists>lo hi. marks_min c = Num lo \<and> marks_max c = Num hi \<and> lo < hi) \<Longrightarrow>
   probabilityFromStats (Num s) c =
     \<lparr>method_d = Fallback, inputMarks = Num s, ProbabilityDetails.mean = marks_mean c,
      ProbabilityDetails.std = marks_std c, min_d = marks_min c, max_d = marks_max c,
      zScore = None, rawScore = Num (if mu \<le> s then 0.85 else 0.15)\<rparr>"
  by (cases "marks_std c"; cases "marks_min c"; cases "marks_max c")
     (auto simp: probabilityFromStats_def Let_def jsGt_def jsGe_def clamp_Num)



section \<open>The statistics aggregator\<close>

lemma valid_iff:
  "(isFinite (mean p) \<and> isFinite (std p) \<and> jsGe (std p) (Num 0)) = (\<not> invalidPoint p)"
  by (cases "mean p"; cases "std p") (auto simp: invalidPoint_def jsGe_def)

lemma valid_Num:
  "\<not> invalidPoint p \<Longrightarrow> \<exists>m s. mean p = Num m \<and> std p = Num s \<and> 0 \<le> s"
  by (cases "mean p"; cases "std p") (auto simp: invalidPoint_def)

lemma foldl_jsAdd_Num:
  "(\<And>p. p \<in> set ps \<Longrightarrow> \<exists>r. f p = Num r) \<Longrightarrow>
   foldl (\<lambda>sum p. jsAdd sum (f p)) (Num a) ps = Num (a + (\<Sum>p\<leftarrow>ps. finiteValue (f p)))"
proof (induction ps arbitrary: a)
  case Nil
  then show ?case by simp
next
  case (Cons p ps)
  obtain r where r: "f p = Num r" using Cons.prems [of p] by auto
  have "foldl (\<lambda>sum p. jsAdd sum (f p)) (Num (a + r)) ps
        = Num (a + r + (\<Sum>p\<leftarrow>ps. finiteValue (f p)))"
    by (rule Cons.IH) (simp add: Cons.prems)
  then show ?case by (simp add: r add.assoc)
qed

lemma Math_max_0: "Math_max [Num 0, Num v] = Num (max 0 v)"
  by (simp add: Math_max_def max_def)

lemma aggregate_valid:
  assumes ne: "ps \<noteq> []" and val: "\<And>p. p \<in> set ps \<Longrightarrow> \<not> invalidPoint p"
  shows "aggregateMeanStd ps = \<lparr>mean = Num (meanR ps), std = Num (sqrt (max 0 (varianceR ps)))\<rparr>"
proof -
  have f: "filter (\<lambda>p. isFinite (mean p) \<and> isFinite (std p) \<and> jsGe (std p) (Num 0)) ps = ps"
    unfolding valid_iff using val by (simp add: filter_id_conv)
  have len: "real (length ps) \<noteq> 0" using ne by simp
  have s1: "foldl (\<lambda>sum p. jsAdd sum (mean p)) (Num 0) ps = Num (\<Sum>p\<leftarrow>ps. finiteValue (mean p))"
    using foldl_jsAdd_Num [of ps mean 0] valid_Num [OF val] by fastforce
  have "\<And>p. p \<in> set ps \<Longrightarrow>
          jsAdd (jsMul (std p) (std p)) (jsMul (mean p) (mean p))
          = Num (finiteValue (std p) * finiteValue (std p) + finiteValue (mean p) * finiteValue (mean p))"
    using valid_Num [OF val] by fastforce
  then have s2: "foldl (\<lambda>sum p. jsAdd sum (jsAdd (jsMul (std p) (std p)) (jsMul (mean p) (mean p)))) (Num 0) ps
     = Num (\<Sum>p\<leftarrow>ps. finiteValue (std p) * finiteValue (std p) + finiteValue (mean p) * finiteValue (mean p))"
    using foldl_jsAdd_Num [of ps "\<lambda>p. jsAdd (jsMul (std p) (std p)) (jsMul (mean p) (mean p))" 0]
    by (simp cong: map_cong)
  show ?thesis
    unfolding aggregateMeanStd_def f Let_def s1 s2
    using ne len by (simp add: Math_max_0 meanR_def varianceR_def)
qed

lemma aggregate_filter:
  "aggregateMeanStd ps = aggregateMeanStd (filter (\<lambda>p. \<not> invalidPoint p) ps)"
  unfolding aggregateMeanStd_def valid_iff by (simp add: Let_def)

lemma aggregate_none_valid:
  "filter (\<lambda>p. \<not> invalidPoint p) ps = [] \<Longrightarrow> aggregateMeanStd ps = \<lparr>mean = Num 0, std = Num 0\<rparr>"
  unfolding aggregateMeanStd_def valid_iff by (simp add: Let_def)


lemma sum_list_lower: "(\<And>x. x \<in> set xs \<Longrightarrow> lo \<le> x) \<Longrightarrow> real (length xs) * lo \<le> sum_list xs"
  by (induction xs) (auto simp: algebra_simps intro: add_mono)

lemma sum_list_upper: "(\<And>x. x \<in> set xs \<Longrightarrow> x \<le> hi) \<Longrightarrow> sum_list xs \<le> real (length xs) * hi"
  by (induction xs) (auto simp: algebra_simps intro: add_mono)

lemma meanR_bounds:
  assumes "ps \<noteq> []"
  shows "Min ((\<lambda>p. finiteValue (mean p)) ` set ps) \<le> meanR ps"
    and "meanR ps \<le> Max ((\<lambda>p. finiteValue (mean p)) ` set ps)"
proof -
  let ?ms = "map (\<lambda>p. finiteValue (mean p)) ps"
  have n: "0 < real (length ps)" using assms by simp
  have "real (length ?ms) * Min (set ?ms) \<le> sum_list ?ms"
    by (rule sum_list_lower) simp
  then show "Min ((\<lambda>p. finiteValue (mean p)) ` set ps) \<le> meanR ps"
    using n by (simp add: meanR_def pos_le_divide_eq mult.commute)
  have "sum_list ?ms \<le> real (length ?ms) * Max (set ?ms)"
    by (rule sum_list_upper) simp
  then show "meanR ps \<le> Max ((\<lambda>p. finiteValue (mean p)) ` set ps)"
    using n by (simp add: meanR_def pos_divide_le_eq mult.commute)
qed

text \<open>
  Claim C7. \<^const>\<open>aggregateMeanStd\<close> returns mean 0 and standard deviation 0 on the empty
  list and on a list of invalid pairs only (a pair is invalid when its mean or its
  standard deviation is not finite or its standard deviation is negative); the invalid
  pairs are discarded: the result is the one computed from the valid pairs alone.
\<close>

theorem aggregateMeanStd_invalid:
  "aggregateMeanStd [] = \<lparr>mean = Num 0, std = Num 0\<rparr> \<and>
   ((\<forall>p\<in>set ps. invalidPoint p) \<longrightarrow> aggregateMeanStd ps = \<lparr>mean = Num 0, std = Num 0\<rparr>) \<and>
   aggregateMeanStd ps = aggregateMeanStd (filter (\<lambda>p. \<not> invalidPoint p) ps)"
proof (intro conjI impI)
  show "aggregateMeanStd [] = \<lparr>mean = Num 0, std = Num 0\<rparr>"
    by (simp add: aggregateMeanStd_def)
  show "aggregateMeanStd ps = \<lparr>mean = Num 0, std = Num 0\<rparr>" if "\<forall>p\<in>set ps. invalidPoint p"
    using that by (intro aggregate_none_valid) (simp add: filter_empty_conv)
  show "aggregateMeanStd ps = aggregateMeanStd (filter (\<lambda>p. \<not> invalidPoint p) ps)"
    by (rule aggregate_filter)
qed

theorem aggregateMeanStd_invalid_witness:
  "aggregateMeanStd invalidPoints = \<lparr>mean = Num 0, std = Num 0\<rparr> \<and>
   aggregateMeanStd (invalidPoints @ validPoints) = aggregateMeanStd validPoints"
  using aggregateMeanStd_invalid [of invalidPoints]
    aggregateMeanStd_invalid [of "invalidPoints @ validPoints"]
  by (simp add: invalidPoints_def validPoints_def invalidPoint_def)



section \<open>The filters and the pipeline\<close>

lemma clampR_unit: "0 \<le> clampR v \<and> clampR v \<le> 1"
  by (simp add: clampR_def)

lemma rawScore_unit: "\<exists>r. rawScore (probabilityFromStats score c) = Num r \<and> 0 \<le> r \<and> r \<le> 1"
proof (cases "isFinite score \<and> isFinite (marks_mean c)")
  case False
  then show ?thesis by (simp add: pfs_not_finite)
next
  case True
  then obtain s mu where sc: "score = Num s" and mn: "marks_mean c = Num mu"
    by (auto simp: isFinite_iff)
  show ?thesis
  proof (cases "\<exists>lo. marks_min c = Num lo \<and> s < lo")
    case True
    then obtain lo where "marks_min c = Num lo" "s < lo" by blast
    then show ?thesis unfolding sc by (simp add: pfs_below [OF mn])
  next
    case nb: False
    show ?thesis
    proof (cases "\<exists>d. marks_std c = Num d \<and> 0 < d")
      case True
      then obtain d where d: "marks_std c = Num d" "0 < d" by blast
      show ?thesis unfolding sc pfs_normal [OF mn nb d] by (simp add: clampR_unit)
    next
      case ns: False
      show ?thesis
      proof (cases "\<exists>m h. marks_min c = Num m \<and> marks_max c = Num h \<and> m < h")
        case True
        then obtain m h where m: "marks_min c = Num m" "marks_max c = Num h" "m < h" by blast
        show ?thesis unfolding sc pfs_linear [OF mn nb ns m] by (simp add: clampR_unit)
      next
        case False
        show ?thesis unfolding sc pfs_degenerate [OF mn nb ns False] by simp
      qed
    qed
  qed
qed

lemma set_update_subset: "set (AList.update k v al) \<subseteq> insert (k, v) (set al)"
  by (induction al) auto

lemma set_insertBy: "set (insertBy cmp x xs) = insert x (set xs)"
  by (induction xs) auto

lemma set_Array_sort: "set (Array_sort cmp xs) = set xs"
  by (induction xs) (simp_all add: Array_sort_def set_insertBy)

lemma bestStep_values: "snd ` set (bestStep acc x) \<subseteq> insert x (snd ` set acc)"
  using set_update_subset [of "toLowerCase (trim (college x))" x acc]
  by (auto simp: bestStep_def Let_def split: option.splits)

lemma foldl_bestStep_values: "snd ` set (foldl bestStep acc xs) \<subseteq> snd ` set acc \<union> set xs"
proof (induction xs arbitrary: acc)
  case Nil
  then show ?case by simp
next
  case (Cons x xs)
  show ?case using Cons.IH [of "bestStep acc x"] bestStep_values [of acc x] by auto
qed

lemma predictColleges_sound:
  assumes "p \<in> set (predictColleges str marks filters data)"
  shows "\<exists>c\<in>set (consolidateAcrossRounds str data).
           passesFilters filters c \<and> p = predictOne marks c \<and> jsGe (probability p) (Num 0.1)"
proof -
  let ?ranked = "filter (\<lambda>c. jsGe (probability c) (Num 0.1))
                   (map (predictOne marks) (filter (passesFilters filters) (consolidateAcrossRounds str data)))"
  have "p \<in> snd ` set (foldl bestStep [] ?ranked)"
    using assms by (simp add: predictColleges_def Let_def set_Array_sort)
  then have "p \<in> set ?ranked" using foldl_bestStep_values [of "[]" ?ranked] by auto
  then show ?thesis by auto
qed

lemma probability_predictOne:
  "probability (predictOne marks c) = rawScore (probabilityFromStats marks c)"
  by (simp add: predictOne_def Let_def)


lemma trim_empty_iff: "toLowerCase (trim s) = [] \<longleftrightarrow> (\<forall>ch\<in>set s. isWhiteSpace ch)"
proof -
  have "toLowerCase (trim s) = [] \<longleftrightarrow> (\<forall>x\<in>set (dropWhile isWhiteSpace s). isWhiteSpace x)"
    by (simp add: toLowerCase_def trim_def dropWhile_eq_Nil_conv)
  also have "\<dots> \<longleftrightarrow> dropWhile isWhiteSpace (dropWhile isWhiteSpace s) = []"
    by (simp only: dropWhile_eq_Nil_conv)
  also have "\<dots> \<longleftrightarrow> (\<forall>ch\<in>set s. isWhiteSpace ch)"
    unfolding dropWhile_idem by (simp only: dropWhile_eq_Nil_conv)
  finally show ?thesis .
qed

lemma matchOptionalFilter_blank: "\<forall>ch\<in>set selected. isWhiteSpace ch \<Longrightarrow> matchOptionalFilter v selected"
  by (simp add: matchOptionalFilter_def Let_def trim_empty_iff)

lemma matchOptionalFilter_falsy_field:
  "matchOptionalFilter None selected" "matchOptionalFilter (Some []) selected"
  by (simp_all add: matchOptionalFilter_def Let_def)

lemma matchOptionalFilter_exact:
  "\<not> (\<forall>ch\<in>set selected. isWhiteSpace ch) \<Longrightarrow> field \<noteq> [] \<Longrightarrow>
   matchOptionalFilter (Some field) selected = (toLowerCase (trim field) = toLowerCase (trim selected))"
  using trim_empty_iff [of selected] by (auto simp: matchOptionalFilter_def Let_def)

lemma example_keys:
  "groupKey exampleString exampleRound1 = ''madras medical college|mbbs|state|oc|oc|government|2025''"
  "groupKey exampleString exampleRound2 = ''madras medical college|mbbs|state|oc|oc|government|2025''"
  "groupKey exampleString exampleOther = ''stanley medical college|mbbs|state|oc|oc|government|2025''"
  by code_simp+

lemma example_norms:
  "toLowerCase (trim ''Madras Medical College'') = ''madras medical college''"
  "toLowerCase (trim ''Stanley Medical College'') = ''stanley medical college''"
  "toLowerCase (trim ''MBBS'') = ''mbbs''"
  "toLowerCase (trim ''mbbs'') = ''mbbs''"
  "toLowerCase (trim ''State'') = ''state''"
  "toLowerCase (trim []) = []"
  "toLowerCase (trim '' '') = []"
  by code_simp+

lemma example_orders:
  "roundOrder ''Round 1'' = Num 1" "roundOrder ''Round 2'' = Num 2"
  by code_simp+

lemma example_grouped:
  "foldl (groupStep exampleString) [] exampleData =
     [(''madras medical college|mbbs|state|oc|oc|government|2025'', [exampleRound1, exampleRound2]),
      (''stanley medical college|mbbs|state|oc|oc|government|2025'', [exampleOther])]"
  by (simp add: exampleData_def groupStep_def example_keys)

lemma example_aggregates:
  "aggregateMeanStd [\<lparr>mean = Num 100, std = Num 0\<rparr>, \<lparr>mean = Num 100, std = Num 0\<rparr>]
     = \<lparr>mean = Num 100, std = Num 0\<rparr>"
  "aggregateMeanStd [\<lparr>mean = Num 500, std = Num 0\<rparr>, \<lparr>mean = Num 500, std = Num 0\<rparr>]
     = \<lparr>mean = Num 500, std = Num 0\<rparr>"
  "aggregateMeanStd [\<lparr>mean = Num 300, std = Num 0\<rparr>] = \<lparr>mean = Num 300, std = Num 0\<rparr>"
  "aggregateMeanStd [\<lparr>mean = Num 500, std = Num 0\<rparr>] = \<lparr>mean = Num 500, std = Num 0\<rparr>"
  by (simp_all add: aggregateMeanStd_def jsGe_def Math_max_def)

lemma example_consolidated:
  "consolidateAcrossRounds exampleString exampleData = [exampleMadras, exampleStanley]"
  unfolding consolidateAcrossRounds_def example_grouped Let_def
  by (simp add: List.map_filter_def exampleMadras_def exampleStanley_def
      exampleRound1_def exampleRound2_def exampleOther_def example_aggregates
      Math_max_def Math_min_def)

lemma example_raw:
  "rawScore (probabilityFromStats (Num 510) exampleRound1) = Num (3 / 5)"
  "rawScore (probabilityFromStats (Num 510) exampleRound2) = Num (7 / 8)"
  "rawScore (probabilityFromStats (Num 510) exampleOther) = Num 0.85"
  by (simp_all add: exampleRound1_def exampleRound2_def exampleOther_def probabilityFromStats_def
      Let_def jsGt_def jsGe_def clamp_def Math_max_def Math_min_def)

lemma example_labels:
  "round_label exampleRound1 = ''Round 1''" "round_label exampleRound2 = ''Round 2''"
  "round_label exampleOther = ''Round 1''"
  by (simp_all add: exampleRound1_def exampleRound2_def exampleOther_def)

lemma example_rounds:
  "estimateAllotmentRound [exampleRound1, exampleRound2] (Num 510) = ''Round 1''"
  "estimateAllotmentRound [exampleOther] (Num 510) = ''Round 1''"
  by (simp_all add: estimateAllotmentRound_def Array_sort_def example_orders example_raw
      example_labels jsGt_def jsGe_def)

lemma predictOne_fields:
  "college (predictOne marks c) = college c"
  "marks_mean (predictOne marks c) = marks_mean c"
  "year (predictOne marks c) = year c"
  "chance (predictOne marks c) = chanceFromProbability (rawScore (probabilityFromStats marks c))"
  "allotmentRound (predictOne marks c) = estimateAllotmentRound (roundSummaries c) marks"
  by (simp_all add: predictOne_def Let_def)

lemma example_raw_consolidated:
  "rawScore (probabilityFromStats (Num 510) exampleMadras) = Num (7 / 11)"
  "rawScore (probabilityFromStats (Num 510) exampleStanley) = Num 0.85"
  by (simp_all add: exampleMadras_def exampleStanley_def probabilityFromStats_def
      Let_def jsGt_def jsGe_def clamp_def Math_max_def Math_min_def)

lemma example_passes:
  "passesFilters exampleFilters exampleMadras" "passesFilters exampleFilters exampleStanley"
  by (simp_all add: exampleMadras_def exampleStanley_def exampleFilters_def passesFilters_def
      matchOptionalFilter_def example_norms)

lemma example_fields:
  "college exampleMadras = ''Madras Medical College''"
  "college exampleStanley = ''Stanley Medical College''"
  "marks_mean exampleMadras = Num 500" "marks_mean exampleStanley = Num 500"
  "roundSummaries exampleMadras = [exampleRound1, exampleRound2]"
  "roundSummaries exampleStanley = [exampleOther]"
  by (simp_all add: exampleMadras_def exampleStanley_def)

lemma example_predictions:
  "predictColleges exampleString (Num 510) exampleFilters exampleData
     = [predictOne (Num 510) exampleStanley, predictOne (Num 510) exampleMadras]"
  unfolding predictColleges_def example_consolidated Let_def
  by (simp add: example_passes probability_predictOne predictOne_fields example_raw_consolidated
      example_fields example_norms bestStep_def Array_sort_def compareColleges_def
      jsOr_def jsGe_def jsGt_def)


text \<open>
  Claim C10. \<^const>\<open>matchOptionalFilter\<close> accepts every selected value, blank or not, when the
  field of the record is falsy: missing (\<open>None\<close>) or the empty string. So for a
  consolidated record whose course, community, category, quota or college type is the
  empty string the filter of that name is as good as not selected.
\<close>

theorem matchOptionalFilter_falsy:
  "matchOptionalFilter None selected \<and> matchOptionalFilter (Some []) selected \<and>
   (course c = [] \<longrightarrow>
      passesFilters (filters\<lparr>PredictorFilters.course := selected\<rparr>) c
        = passesFilters (filters\<lparr>PredictorFilters.course := []\<rparr>) c) \<and>
   (community c = [] \<longrightarrow>
      passesFilters (filters\<lparr>PredictorFilters.community := selected\<rparr>) c
        = passesFilters (filters\<lparr>PredictorFilters.community := []\<rparr>) c) \<and>
   (category c = [] \<longrightarrow>
      passesFilters (filters\<lparr>PredictorFilters.category := selected\<rparr>) c
        = passesFilters (filters\<lparr>PredictorFilters.category := []\<rparr>) c) \<and>
   (quota c = [] \<longrightarrow>
      passesFilters (filters\<lparr>PredictorFilters.quota := selected\<rparr>) c
        = passesFilters (filters\<lparr>PredictorFilters.quota := []\<rparr>) c) \<and>
   (college_type c = [] \<longrightarrow>
      passesFilters (filters\<lparr>collegeType := selected\<rparr>) c
        = passesFilters (filters\<lparr>collegeType := []\<rparr>) c)"
  by (simp add: passesFilters_def matchOptionalFilter_falsy_field)

theorem matchOptionalFilter_falsy_witness:
  "matchOptionalFilter (Some []) ''BDS'' \<and>
   passesFilters (exampleFilters\<lparr>PredictorFilters.course := ''BDS''\<rparr>) (exampleMadras\<lparr>course := []\<rparr>)"
  using matchOptionalFilter_falsy [of "''BDS''" "exampleMadras\<lparr>course := []\<rparr>" exampleFilters]
  by (simp add: exampleMadras_def exampleFilters_def passesFilters_def matchOptionalFilter_def
      example_norms)




section \<open>The round estimator\<close>

lemma roundOrder_cases:
  "roundOrder r = (case roundNumber r of None \<Rightarrow> Num MAX_SAFE_INTEGER | Some n \<Rightarrow> Num (real n))"
  by (simp add: roundOrder_def roundNumber_def split: option.splits)

lemma compare_rounds_iff:
  assumes "\<forall>n. roundNumber x = Some n \<longrightarrow> real n < MAX_SAFE_INTEGER"
    and "\<forall>n. roundNumber y = Some n \<longrightarrow> real n < MAX_SAFE_INTEGER"
  shows "jsGt (jsSub (roundOrder x) (roundOrder y)) (Num 0) \<longleftrightarrow> \<not> specOrdinal x \<le> specOrdinal y"
  using assms
  by (auto simp: roundOrder_cases specOrdinal_def jsGt_def split: option.splits)

lemma insertBy_insort_key:
  assumes "\<And>y. y \<in> set ys \<Longrightarrow> jsGt (cmp (g x) (g y)) (Num 0) \<longleftrightarrow> \<not> k x \<le> k y"
  shows "insertBy cmp (g x) (map g ys) = map g (insort_key k x ys)"
  using assms by (induction ys) auto

lemma Array_sort_sort_key:
  assumes "\<And>x y. x \<in> set xs \<Longrightarrow> y \<in> set xs \<Longrightarrow> jsGt (cmp (g x) (g y)) (Num 0) \<longleftrightarrow> \<not> k x \<le> k y"
  shows "Array_sort cmp (map g xs) = map g (sort_key k xs)"
  using assms
proof (induction xs)
  case Nil
  then show ?case by (simp add: Array_sort_def)
next
  case (Cons x xs)
  have ih: "Array_sort cmp (map g xs) = map g (sort_key k xs)"
    by (rule Cons.IH) (simp add: Cons.prems)
  have "insertBy cmp (g x) (map g (sort_key k xs)) = map g (insort_key k x (sort_key k xs))"
    by (rule insertBy_insort_key) (simp add: Cons.prems)
  then show ?case using ih by (simp add: Array_sort_def)
qed

lemma find_map_comp: "find P (map g xs) = map_option g (find (\<lambda>x. P (g x)) xs)"
  by (induction xs) auto

text \<open>
  Claim C3 places a round without a number after all numbered rounds. A round without a
  number is ordered by \<^verbatim>\<open>Number.MAX_SAFE_INTEGER\<close>, so a round numbered above it comes later:
  of the two rounds below, both with raw score 0.85, the function answers \<open>Final\<close>
  where the order of the claim gives the numbered round.
\<close>

theorem estimateAllotmentRound_order_counterexample:
  "estimateAllotmentRound [exampleHuge, exampleFinal] (Num 510) = ''Final'' \<and>
   specEstimateRound [exampleHuge, exampleFinal] (Num 510) = ''Round 9007199254740992''"
proof -
  have n: "roundNumber ''Final'' = None" "roundNumber ''Round 9007199254740992'' = Some 9007199254740992"
    by (simp_all add: roundNumber_def matchDigits_def isDigit_def digitsValue_def)
  have raw: "rawScore (probabilityFromStats (Num 510) exampleFinal) = Num 0.85"
     "rawScore (probabilityFromStats (Num 510) exampleHuge) = Num 0.85"
    by (simp_all add: exampleFinal_def exampleHuge_def exampleOther_def probabilityFromStats_def
        Let_def jsGt_def jsGe_def)
  have lab: "round_label exampleFinal = ''Final''" "round_label exampleHuge = ''Round 9007199254740992''"
    by (simp_all add: exampleFinal_def exampleHuge_def)
  have "estimateAllotmentRound [exampleHuge, exampleFinal] (Num 510) = ''Final''"
    by (simp add: estimateAllotmentRound_def Array_sort_def roundOrder_cases n raw lab
        MAX_SAFE_INTEGER_def jsGt_def jsGe_def)
  moreover have "specEstimateRound [exampleHuge, exampleFinal] (Num 510) = ''Round 9007199254740992''"
    by (simp add: specEstimateRound_def specOrdinal_def n raw lab jsGe_def)
  ultimately show ?thesis by simp
qed

text \<open>
  Claim C3, amended. When every round number is below \<^verbatim>\<open>Number.MAX_SAFE_INTEGER\<close>,
  \<^const>\<open>estimateAllotmentRound\<close> orders the rounds by the first integer in the label, the
  rounds without a number after all numbered ones, and returns the label of the first round
  in that order with a raw score of at least 0.5, else of the first with a positive raw
  score, else \<open>Not likely\<close>.
\<close>

theorem estimateAllotmentRound_order:
  assumes "\<forall>r\<in>set rounds. \<forall>n. roundNumber (round_label r) = Some n \<longrightarrow> real n < MAX_SAFE_INTEGER"
  shows "estimateAllotmentRound rounds marks = specEstimateRound rounds marks"
proof -
  let ?g = "\<lambda>item. (round_label item, rawScore (probabilityFromStats marks item))"
  let ?cmp = "\<lambda>a b. jsSub (roundOrder (fst a)) (roundOrder (fst b))"
  let ?k = "\<lambda>item. specOrdinal (round_label item)"
  have "Array_sort ?cmp (map ?g rounds) = map ?g (sort_key ?k rounds)"
    by (rule Array_sort_sort_key) (use assms in \<open>simp add: compare_rounds_iff\<close>)
  then show ?thesis
    by (simp add: estimateAllotmentRound_def specEstimateRound_def Let_def find_map_comp
        split: option.splits)
qed

theorem estimateAllotmentRound_order_witness:
  "estimateAllotmentRound [exampleFinal, exampleRound2, exampleRound1] (Num 510)
     = specEstimateRound [exampleFinal, exampleRound2, exampleRound1] (Num 510) \<and>
   specEstimateRound [exampleFinal, exampleRound2, exampleRound1] (Num 510) = ''Round 1''"
proof -
  have n: "roundNumber ''Final'' = None" "roundNumber ''Round 1'' = Some 1"
    "roundNumber ''Round 2'' = Some 2"
    by (simp_all add: roundNumber_def matchDigits_def isDigit_def digitsValue_def)
  have lab: "round_label exampleFinal = ''Final''" "round_label exampleRound1 = ''Round 1''"
    "round_label exampleRound2 = ''Round 2''"
    by (simp_all add: exampleFinal_def exampleRound1_def exampleRound2_def)
  have raw: "rawScore (probabilityFromStats (Num 510) exampleFinal) = Num 0.85"
    by (simp add: exampleFinal_def exampleOther_def probabilityFromStats_def
        Let_def jsGt_def jsGe_def)
  have "specEstimateRound [exampleFinal, exampleRound2, exampleRound1] (Num 510) = ''Round 1''"
    by (simp add: specEstimateRound_def specOrdinal_def n lab raw example_raw jsGe_def)
  then show ?thesis
    using estimateAllotmentRound_order [of "[exampleFinal, exampleRound2, exampleRound1]" "Num 510"]
    by (simp add: n lab MAX_SAFE_INTEGER_def)
qed

section \<open>The consolidation stage\<close>

lemma jsLt_trans_not:
  "a \<noteq> NaN \<Longrightarrow> b \<noteq> NaN \<Longrightarrow> c \<noteq> NaN \<Longrightarrow> \<not> jsLt a b \<Longrightarrow> \<not> jsLt b c \<Longrightarrow> \<not> jsLt a c"
  by (cases a; cases b; cases c) auto

lemma not_jsLt_jsGe: "a \<noteq> NaN \<Longrightarrow> b \<noteq> NaN \<Longrightarrow> \<not> jsLt a b \<Longrightarrow> jsGe a b"
  by (cases a; cases b) (auto simp: jsGe_def)

lemma min2_props:
  "a \<noteq> NaN \<Longrightarrow> b \<noteq> NaN \<Longrightarrow>
   min2 a b \<noteq> NaN \<and> (min2 a b = a \<or> min2 a b = b) \<and> \<not> jsLt a (min2 a b) \<and> \<not> jsLt b (min2 a b)"
  by (cases a; cases b) auto

lemma max2_props:
  "a \<noteq> NaN \<Longrightarrow> b \<noteq> NaN \<Longrightarrow>
   max2 a b \<noteq> NaN \<and> (max2 a b = a \<or> max2 a b = b) \<and> \<not> jsLt (max2 a b) a \<and> \<not> jsLt (max2 a b) b"
  by (cases a; cases b) auto

lemma foldl_min2_NaN: "foldl min2 NaN xs = NaN"
  by (induction xs) auto

lemma foldl_max2_NaN: "foldl max2 NaN xs = NaN"
  by (induction xs) auto

lemma min2_NaN_right: "min2 a NaN = NaN"
  by (cases a) auto

lemma max2_NaN_right: "max2 a NaN = NaN"
  by (cases a) auto

lemma foldl_min2_has_NaN: "NaN \<in> set xs \<Longrightarrow> foldl min2 a xs = NaN"
  by (induction xs arbitrary: a) (auto simp: foldl_min2_NaN min2_NaN_right)

lemma foldl_max2_has_NaN: "NaN \<in> set xs \<Longrightarrow> foldl max2 a xs = NaN"
  by (induction xs arbitrary: a) (auto simp: foldl_max2_NaN max2_NaN_right)

lemma foldl_min2_props:
  "a \<noteq> NaN \<Longrightarrow> NaN \<notin> set xs \<Longrightarrow>
   foldl min2 a xs \<noteq> NaN \<and> foldl min2 a xs \<in> insert a (set xs) \<and>
   (\<forall>x\<in>insert a (set xs). \<not> jsLt x (foldl min2 a xs))"
proof (induction xs arbitrary: a)
  case Nil
  then show ?case by (cases a) auto
next
  case (Cons x xs)
  have x: "x \<noteq> NaN" and xs: "NaN \<notin> set xs" using Cons.prems by auto
  note m = min2_props [OF Cons.prems(1) x]
  note ih = Cons.IH [of "min2 a x", OF _ xs]
  let ?r = "foldl min2 (min2 a x) xs"
  have r: "?r \<noteq> NaN" "?r \<in> insert (min2 a x) (set xs)"
    "\<forall>y\<in>insert (min2 a x) (set xs). \<not> jsLt y ?r"
    using ih m by auto
  have "\<not> jsLt a ?r"
    using jsLt_trans_not [of a "min2 a x" ?r] Cons.prems(1) m r by auto
  moreover have "\<not> jsLt x ?r"
    using jsLt_trans_not [of x "min2 a x" ?r] x m r by auto
  ultimately show ?case using r m by auto
qed

lemma foldl_max2_props:
  "a \<noteq> NaN \<Longrightarrow> NaN \<notin> set xs \<Longrightarrow>
   foldl max2 a xs \<noteq> NaN \<and> foldl max2 a xs \<in> insert a (set xs) \<and>
   (\<forall>x\<in>insert a (set xs). \<not> jsLt (foldl max2 a xs) x)"
proof (induction xs arbitrary: a)
  case Nil
  then show ?case by (cases a) auto
next
  case (Cons x xs)
  have x: "x \<noteq> NaN" and xs: "NaN \<notin> set xs" using Cons.prems by auto
  note m = max2_props [OF Cons.prems(1) x]
  note ih = Cons.IH [of "max2 a x", OF _ xs]
  let ?r = "foldl max2 (max2 a x) xs"
  have r: "?r \<noteq> NaN" "?r \<in> insert (max2 a x) (set xs)"
    "\<forall>y\<in>insert (max2 a x) (set xs). \<not> jsLt ?r y"
    using ih m by auto
  have "\<not> jsLt ?r a"
    using jsLt_trans_not [of ?r "max2 a x" a] Cons.prems(1) m r by auto
  moreover have "\<not> jsLt ?r x"
    using jsLt_trans_not [of ?r "max2 a x" x] x m r by auto
  ultimately show ?case using r m by auto
qed

lemma jsLt_PosInf: "\<not> jsLt PosInf x" "\<not> jsLt x NegInf"
  by (cases x; simp)+

lemma Math_min_never_above: "x \<in> set xs \<Longrightarrow> \<not> jsLt x (Math_min xs)"
proof (cases "NaN \<in> set xs")
  case True
  then show ?thesis by (cases x) (simp_all add: Math_min_def foldl_min2_has_NaN)
next
  case False
  assume "x \<in> set xs"
  then show ?thesis using foldl_min2_props [of PosInf xs] False by (simp add: Math_min_def)
qed

lemma Math_max_never_below: "x \<in> set xs \<Longrightarrow> \<not> jsLt (Math_max xs) x"
proof (cases "NaN \<in> set xs")
  case True
  then show ?thesis by (simp add: Math_max_def foldl_max2_has_NaN)
next
  case False
  assume "x \<in> set xs"
  then show ?thesis using foldl_max2_props [of NegInf xs] False by (simp add: Math_max_def)
qed

lemma Math_min_isLeast:
  assumes "xs \<noteq> []" "NaN \<notin> set xs"
  shows "isLeast (Math_min xs) xs"
proof -
  note p = foldl_min2_props [of PosInf xs, OF _ assms(2), folded Math_min_def]
  have nn: "Math_min xs \<noteq> NaN" using p by simp
  have "Math_min xs \<in> set xs"
  proof (rule ccontr)
    assume n: "Math_min xs \<notin> set xs"
    then have e: "Math_min xs = PosInf" using p by auto
    obtain x where x: "x \<in> set xs" using assms(1) by (cases xs) auto
    then have "\<not> jsLt x PosInf" "x \<noteq> NaN" using p e assms(2) by auto
    then have "x = PosInf" by (cases x) auto
    then show False using n e x by simp
  qed
  moreover have "\<forall>x\<in>set xs. jsGe x (Math_min xs)"
    using p nn assms(2) by (auto intro!: not_jsLt_jsGe)
  ultimately show ?thesis by (simp add: isLeast_def)
qed

lemma Math_max_isGreatest:
  assumes "xs \<noteq> []" "NaN \<notin> set xs"
  shows "isGreatest (Math_max xs) xs"
proof -
  note p = foldl_max2_props [of NegInf xs, OF _ assms(2), folded Math_max_def]
  have nn: "Math_max xs \<noteq> NaN" using p by simp
  have "Math_max xs \<in> set xs"
  proof (rule ccontr)
    assume n: "Math_max xs \<notin> set xs"
    then have e: "Math_max xs = NegInf" using p by auto
    obtain x where x: "x \<in> set xs" using assms(1) by (cases xs) auto
    then have "\<not> jsLt NegInf x" "x \<noteq> NaN" using p e assms(2) by auto
    then have "x = NegInf" by (cases x) auto
    then show False using n e x by simp
  qed
  moreover have "\<forall>x\<in>set xs. jsGe (Math_max xs) x"
    using p nn assms(2) by (auto intro!: not_jsLt_jsGe)
  ultimately show ?thesis by (simp add: isGreatest_def)
qed

lemma map_of_groupStep:
  "map_of (groupStep str grouped item) k =
     (if k = groupKey str item
      then Some ((case map_of grouped k of Some l \<Rightarrow> l | None \<Rightarrow> []) @ [item])
      else map_of grouped k)"
  by (simp add: groupStep_def Let_def update_conv' split: option.splits)

lemma distinct_groupStep:
  "distinct (map fst grouped) \<Longrightarrow> distinct (map fst (groupStep str grouped item))"
  by (simp add: groupStep_def Let_def distinct_update split: option.splits)

lemma map_of_grouped:
  "map_of (foldl (groupStep str) grouped data) k =
     (if filter (\<lambda>d. groupKey str d = k) data = [] then map_of grouped k
      else Some ((case map_of grouped k of Some l \<Rightarrow> l | None \<Rightarrow> [])
                  @ filter (\<lambda>d. groupKey str d = k) data))"
proof (induction data arbitrary: grouped)
  case Nil
  then show ?case by simp
next
  case (Cons item data)
  show ?case
    by (simp add: Cons.IH map_of_groupStep split: option.splits)
qed

lemma distinct_grouped:
  "distinct (map fst grouped) \<Longrightarrow> distinct (map fst (foldl (groupStep str) grouped data))"
  by (induction data arbitrary: grouped) (simp_all add: distinct_groupStep)

lemma grouped_entry:
  assumes "(k, items) \<in> set (foldl (groupStep str) [] data)"
  shows "items = filter (\<lambda>d. groupKey str d = k) data" and "items \<noteq> []"
proof -
  have "distinct (map fst (foldl (groupStep str) [] data))"
    by (rule distinct_grouped) simp
  then have m: "map_of (foldl (groupStep str) [] data) k = Some items"
    using assms by simp
  show "items = filter (\<lambda>d. groupKey str d = k) data"
    using m by (simp add: map_of_grouped split: if_splits)
  then show "items \<noteq> []"
    using m by (auto simp: map_of_grouped split: if_splits)
qed

lemma consolidated_from_group:
  assumes "c \<in> set (consolidateAcrossRounds str data)"
  obtains k items where "(k, items) \<in> set (foldl (groupStep str) [] data)"
    and "consolidateGroup items = Some c"
proof -
  from assms obtain e where e: "e \<in> set (foldl (groupStep str) [] data)"
    and c: "consolidateGroup (snd e) = Some c"
    by (auto simp: consolidateAcrossRounds_def Let_def List.map_filter_def)
  show thesis
    by (rule that [of "fst e" "snd e"]) (simp_all add: e c)
qed

lemma consolidateGroup_fields:
  assumes "consolidateGroup items = Some c"
  shows "roundSummaries c = items"
    and "rank_min c = Math_min (map rank_min items)"
    and "rank_max c = Math_max (map rank_max items)"
    and "marks_min c = Math_min (map marks_min items)"
    and "marks_max c = Math_max (map marks_max items)"
    and "marks_mean c = mean (aggregateMeanStd (map (\<lambda>item. \<lparr>mean = marks_mean item, std = marks_std item\<rparr>) items))"
  using assms by (cases items; auto simp: Let_def)+

lemma consolidated_group:
  assumes "c \<in> set (consolidateAcrossRounds str data)"
  shows "roundSummaries c \<noteq> []"
    and "roundSummaries c = filter (\<lambda>d. groupKey str d = groupKey str (hd (roundSummaries c))) data"
    and "consolidateGroup (roundSummaries c) = Some c"
proof -
  obtain k items where g: "(k, items) \<in> set (foldl (groupStep str) [] data)"
    and c: "consolidateGroup items = Some c"
    by (rule consolidated_from_group [OF assms])
  have rs: "roundSummaries c = items" using c by (rule consolidateGroup_fields)
  note it = grouped_entry [OF g]
  then have "hd items \<in> set (filter (\<lambda>d. groupKey str d = k) data)"
    by (metis hd_in_set)
  then have "groupKey str (hd items) = k" by simp
  then show "roundSummaries c = filter (\<lambda>d. groupKey str d = groupKey str (hd (roundSummaries c))) data"
    using it rs by simp
  show "roundSummaries c \<noteq> []" using it rs by simp
  show "consolidateGroup (roundSummaries c) = Some c" using c rs by simp
qed



section \<open>Deduplication and ranking\<close>

lemma isBetter_irrefl: "\<not> isBetter p p"
  by (cases "probability p"; cases "marks_mean p"; cases "year p") (auto simp: isBetter_def jsGt_def)

lemma jsGt_trans: "jsGt a b \<Longrightarrow> jsGt b c \<Longrightarrow> jsGt a c"
  by (cases a; cases b; cases c) (auto simp: jsGt_def)

lemma jsEq_sym_trans:
  "jsEq a b \<Longrightarrow> jsEq b c \<Longrightarrow> jsEq a c"
  "jsEq a b \<Longrightarrow> jsGt b c \<Longrightarrow> jsGt a c"
  "jsGt a b \<Longrightarrow> jsEq b c \<Longrightarrow> jsGt a c"
  by (cases a; cases b; cases c; auto simp: jsGt_def)+

lemma isBetter_trans: "isBetter a b \<Longrightarrow> isBetter b c \<Longrightarrow> isBetter a c"
  unfolding isBetter_def
  by (meson jsGt_trans jsEq_sym_trans)

text \<open>The loop over \<^verbatim>\<open>ranked\<close>: the map holds, under each institution, a best record.\<close>

lemma map_of_bestStep:
  "map_of (bestStep acc x) k =
     (if k = institution x
      then (case map_of acc k of
              None \<Rightarrow> Some x
            | Some current \<Rightarrow> if isBetter x current then Some x else Some current)
      else map_of acc k)"
  by (simp add: bestStep_def institution_def Let_def update_conv' split: option.splits)

lemma distinct_bestStep: "distinct (map fst acc) \<Longrightarrow> distinct (map fst (bestStep acc x))"
  by (simp add: bestStep_def Let_def distinct_update split: option.splits)

lemma distinct_foldl_bestStep:
  "distinct (map fst acc) \<Longrightarrow> distinct (map fst (foldl bestStep acc xs))"
  by (induction xs arbitrary: acc) (simp_all add: distinct_bestStep)

lemma keys_bestStep:
  assumes "\<forall>e\<in>set acc. fst e = institution (snd e)"
  shows "\<forall>e\<in>set (bestStep acc x). fst e = institution (snd e)"
proof -
  have "set (AList.update (institution x) x acc) \<subseteq> insert (institution x, x) (set acc)"
    by (rule set_update_subset)
  then show ?thesis
    using assms by (auto simp: bestStep_def institution_def Let_def split: option.splits)
qed

lemma keys_foldl_bestStep:
  "\<forall>e\<in>set acc. fst e = institution (snd e) \<Longrightarrow>
   \<forall>e\<in>set (foldl bestStep acc xs). fst e = institution (snd e)"
proof (induction xs arbitrary: acc)
  case Nil
  then show ?case by simp
next
  case (Cons x xs)
  show ?case using Cons.IH [OF keys_bestStep [OF Cons.prems]] by simp
qed

lemma covered_bestStep_new: "covered (bestStep acc x) x"
  by (auto simp: covered_def map_of_bestStep isBetter_irrefl split: option.splits)

lemma covered_bestStep_old: "covered acc y \<Longrightarrow> covered (bestStep acc x) y"
  by (auto simp: covered_def map_of_bestStep split: option.splits dest: isBetter_trans)

lemma covered_foldl_old: "covered acc y \<Longrightarrow> covered (foldl bestStep acc xs) y"
  by (induction xs arbitrary: acc) (simp_all add: covered_bestStep_old)

lemma covered_foldl_new: "y \<in> set xs \<Longrightarrow> covered (foldl bestStep acc xs) y"
proof (induction xs arbitrary: acc)
  case Nil
  then show ?case by simp
next
  case (Cons x xs)
  show ?case
  proof (cases "y = x")
    case True
    then show ?thesis by (simp add: covered_foldl_old covered_bestStep_new)
  next
    case False
    then show ?thesis using Cons by simp
  qed
qed

text \<open>The sort.\<close>

lemma distinct_map_insertBy:
  "distinct (map f (insertBy cmp x xs)) \<longleftrightarrow> f x \<notin> f ` set xs \<and> distinct (map f xs)"
  by (induction xs) (auto simp: set_insertBy)

lemma distinct_map_Array_sort:
  "distinct (map f (Array_sort cmp xs)) \<longleftrightarrow> distinct (map f xs)"
proof (induction xs)
  case Nil
  then show ?case by (simp add: Array_sort_def)
next
  case (Cons x xs)
  have "Array_sort cmp (x # xs) = insertBy cmp x (Array_sort cmp xs)"
    by (simp add: Array_sort_def)
  then show ?case
    using Cons by (simp add: distinct_map_insertBy set_Array_sort)
qed

lemma sorted_insertBy:
  assumes ord: "\<And>a b. a \<in> S \<Longrightarrow> b \<in> S \<Longrightarrow> jsGt (cmp a b) (Num 0) \<longleftrightarrow> \<not> le a b"
    and total: "\<And>a b. a \<in> S \<Longrightarrow> b \<in> S \<Longrightarrow> le a b \<or> le b a"
    and trans: "\<And>a b c. a \<in> S \<Longrightarrow> b \<in> S \<Longrightarrow> c \<in> S \<Longrightarrow> le a b \<Longrightarrow> le b c \<Longrightarrow> le a c"
    and x: "x \<in> S" and xs: "set xs \<subseteq> S" and s: "sorted_wrt le xs"
  shows "sorted_wrt le (insertBy cmp x xs)"
  using xs s
proof (induction xs)
  case Nil
  then show ?case by simp
next
  case (Cons y ys)
  have y: "y \<in> S" and ys: "set ys \<subseteq> S" using Cons.prems by auto
  show ?case
  proof (cases "le x y")
    case True
    have "le x z" if "z \<in> set ys" for z
      using trans [OF x y _ True, of z] that Cons.prems ys by auto
    then show ?thesis using True Cons.prems ord [OF x y] by auto
  next
    case False
    then have "le y x" using total [OF x y] by simp
    moreover have "sorted_wrt le (insertBy cmp x ys)"
      using Cons.IH ys Cons.prems by simp
    ultimately show ?thesis using False Cons.prems ord [OF x y] by (auto simp: set_insertBy)
  qed
qed

lemma sorted_Array_sort:
  assumes ord: "\<And>a b. a \<in> S \<Longrightarrow> b \<in> S \<Longrightarrow> jsGt (cmp a b) (Num 0) \<longleftrightarrow> \<not> le a b"
    and total: "\<And>a b. a \<in> S \<Longrightarrow> b \<in> S \<Longrightarrow> le a b \<or> le b a"
    and trans: "\<And>a b c. a \<in> S \<Longrightarrow> b \<in> S \<Longrightarrow> c \<in> S \<Longrightarrow> le a b \<Longrightarrow> le b c \<Longrightarrow> le a c"
    and xs: "set xs \<subseteq> S"
  shows "sorted_wrt le (Array_sort cmp xs)"
  using xs
proof (induction xs)
  case Nil
  then show ?case by (simp add: Array_sort_def)
next
  case (Cons x xs)
  have "sorted_wrt le (insertBy cmp x (Array_sort cmp xs))"
    by (rule sorted_insertBy [where S = S, OF ord total trans])
       (use Cons in \<open>auto simp: set_Array_sort\<close>)
  then show ?case by (simp add: Array_sort_def)
qed

lemma compareColleges_rankedBefore:
  "finiteKeys a \<Longrightarrow> finiteKeys b \<Longrightarrow>
   jsGt (compareColleges a b) (Num 0) \<longleftrightarrow> \<not> rankedBefore a b"
  by (auto simp: finiteKeys_def isFinite_iff compareColleges_def rankedBefore_def jsOr_def
      jsGt_def jsGe_def)

lemma rankedBefore_total: "finiteKeys a \<Longrightarrow> finiteKeys b \<Longrightarrow> rankedBefore a b \<or> rankedBefore b a"
  by (auto simp: finiteKeys_def isFinite_iff rankedBefore_def jsGt_def jsGe_def)

lemma rankedBefore_trans:
  "finiteKeys a \<Longrightarrow> finiteKeys b \<Longrightarrow> finiteKeys c \<Longrightarrow>
   rankedBefore a b \<Longrightarrow> rankedBefore b c \<Longrightarrow> rankedBefore a c"
  by (auto simp: finiteKeys_def isFinite_iff rankedBefore_def jsGt_def jsGe_def)

lemma aggregate_mean_finite: "isFinite (mean (aggregateMeanStd ps))"
proof (cases "filter (\<lambda>p. \<not> invalidPoint p) ps = []")
  case True
  then show ?thesis by (simp add: aggregate_none_valid)
next
  case False
  then have "aggregateMeanStd (filter (\<lambda>p. \<not> invalidPoint p) ps)
      = \<lparr>mean = Num (meanR (filter (\<lambda>p. \<not> invalidPoint p) ps)),
         std = Num (sqrt (max 0 (varianceR (filter (\<lambda>p. \<not> invalidPoint p) ps))))\<rparr>"
    by (intro aggregate_valid) simp_all
  then show ?thesis by (simp add: aggregate_filter [of ps])
qed

lemma predictOne_finiteKeys:
  assumes "c \<in> set (consolidateAcrossRounds str data)"
  shows "finiteKeys (predictOne marks c)"
proof -
  have "isFinite (marks_mean c)"
    using consolidateGroup_fields(6) [OF consolidated_group(3) [OF assms]]
    by (simp add: aggregate_mean_finite)
  moreover have "isFinite (rawScore (probabilityFromStats marks c))"
    using rawScore_unit [of marks c] by (auto simp: isFinite_iff)
  ultimately show ?thesis
    by (simp add: finiteKeys_def probability_predictOne predictOne_fields)
qed



section \<open>Monotonicity of the probability model\<close>

lemma normalCdfR_alt:
  "normalCdfR z = (if z < 0 then erfTail (\<bar>z\<bar> / sqrt 2) / 2 else 1 - erfTail (\<bar>z\<bar> / sqrt 2) / 2)"
proof -
  have "normalCdfR z = 0.5 * (1 + (if z < 0 then - 1 else 1) * (1 - erfTail (\<bar>z\<bar> / sqrt 2)))"
    unfolding normalCdfR_def Let_def erfTail_def erfPoly_def by (rule refl)
  then show ?thesis by (cases "z < 0") simp_all
qed

lemma quadratic_pos:
  fixes a b c t :: real
  assumes "0 < a" "b * b < 4 * a * c"
  shows "0 < a * (t * t) + b * t + c"
proof -
  have "4 * a * (a * (t * t) + b * t + c) = (2 * a * t + b) * (2 * a * t + b) + (4 * a * c - b * b)"
    by (simp add: algebra_simps)
  moreover have "0 \<le> (2 * a * t + b) * (2 * a * t + b)" by simp
  ultimately have "0 < 4 * a * (a * (t * t) + b * t + c)" using assms(2) by linarith
  then show ?thesis using assms(1) by (simp add: zero_less_mult_iff)
qed

lemma erfPoly'_pos: "0 < erfPoly' t"
proof -
  have q1: "0 < 1 * (t * t) + (- 0.568993472) * t + 0.254829592"
    by (rule quadratic_pos) simp_all
  have q2: "0 < 5.307027145 * (t * t) + (- 5.812608108) * t + 3.264241223"
    by (rule quadratic_pos) simp_all
  have "erfPoly' t = (1 * (t * t) + (- 0.568993472) * t + 0.254829592)
          + (t * t) * (5.307027145 * (t * t) + (- 5.812608108) * t + 3.264241223)"
    by (simp add: erfPoly'_def algebra_simps)
  moreover have "0 \<le> (t * t) * (5.307027145 * (t * t) + (- 5.812608108) * t + 3.264241223)"
    by (rule mult_nonneg_nonneg [OF zero_le_square less_imp_le [OF q2]])
  ultimately show ?thesis using q1 by linarith
qed

lemma erfPoly_deriv: "(erfPoly has_real_derivative erfPoly' t) (at t)"
  unfolding erfPoly_def [abs_def] erfPoly'_def
  by (auto intro!: derivative_eq_intros simp: algebra_simps)

lemma erfPoly_mono: "s \<le> t \<Longrightarrow> erfPoly s \<le> erfPoly t"
  by (rule DERIV_nonneg_imp_nondecreasing [of s t erfPoly])
     (auto intro!: exI [of _ "erfPoly' _"] erfPoly_deriv less_imp_le [OF erfPoly'_pos])

lemma erfPoly_nonneg: "0 \<le> t \<Longrightarrow> 0 \<le> erfPoly t"
  using erfPoly_mono [of 0 t] by (simp add: erfPoly_def)

lemma erfTail_antimono:
  assumes "0 \<le> x" "x \<le> y"
  shows "erfTail y \<le> erfTail x"
proof -
  have px: "0 < 1 + 0.3275911 * x" and py: "0 < 1 + 0.3275911 * y"
    using assms by (auto intro: add_pos_nonneg)
  have t: "1 / (1 + 0.3275911 * y) \<le> 1 / (1 + 0.3275911 * x)"
    using assms px py by (simp add: frac_le)
  have "x * x \<le> y * y" using assms by (simp add: mult_mono)
  then have e: "exp (- y * y) \<le> exp (- x * x)" by simp
  have "erfPoly (1 / (1 + 0.3275911 * y)) * exp (- y * y)
        \<le> erfPoly (1 / (1 + 0.3275911 * x)) * exp (- x * x)"
    by (rule mult_mono [OF erfPoly_mono [OF t] e])
       (use px in \<open>auto intro!: erfPoly_nonneg\<close>)
  then show ?thesis by (simp add: erfTail_def)
qed

lemma erfTail_le_1: "0 \<le> x \<Longrightarrow> erfTail x \<le> 1"
proof -
  assume "0 \<le> x"
  then have "erfTail x \<le> erfTail 0" by (intro erfTail_antimono) simp_all
  also have "erfTail 0 \<le> 1" by (simp add: erfTail_def erfPoly_def)
  finally show ?thesis .
qed

lemma normalCdfR_mono:
  assumes "z1 \<le> z2"
  shows "normalCdfR z1 \<le> normalCdfR z2"
proof -
  have s: "0 < sqrt (2::real)" by simp
  consider "z2 < 0" | "0 \<le> z1" | "z1 < 0" "0 \<le> z2" by linarith
  then show ?thesis
  proof cases
    case 1
    then have "\<bar>z2\<bar> / sqrt 2 \<le> \<bar>z1\<bar> / sqrt 2" using assms by (simp add: divide_right_mono)
    then have "erfTail (\<bar>z1\<bar> / sqrt 2) \<le> erfTail (\<bar>z2\<bar> / sqrt 2)"
      by (intro erfTail_antimono) simp_all
    then show ?thesis using 1 assms by (simp add: normalCdfR_alt)
  next
    case 2
    then have "\<bar>z1\<bar> / sqrt 2 \<le> \<bar>z2\<bar> / sqrt 2" using assms by (simp add: divide_right_mono)
    then have "erfTail (\<bar>z2\<bar> / sqrt 2) \<le> erfTail (\<bar>z1\<bar> / sqrt 2)"
      by (intro erfTail_antimono) simp_all
    then show ?thesis using 2 assms by (simp add: normalCdfR_alt)
  next
    case 3
    have "erfTail (\<bar>z1\<bar> / sqrt 2) \<le> 1" "erfTail (\<bar>z2\<bar> / sqrt 2) \<le> 1"
      by (rule erfTail_le_1; simp)+
    then show ?thesis using 3 by (simp add: normalCdfR_alt)
  qed
qed

lemma clampR_mono: "a \<le> b \<Longrightarrow> clampR a \<le> clampR b"
  by (simp add: clampR_def min_def max_def)



end
